theory Spec2Isabelle
  imports Main "HOL-Library.Word" "HOL-Library.AList"
begin

section \<open>The etcd client library, as the adapter sees it\<close>

text \<open>
  The adapter of \<^verbatim>\<open>discovery/etcd.go\<close> is a thin layer over the etcd v3 client.
  The client library is not part of the repository: it is taken as a parameter, a record
  of the calls the adapter makes, each a function of the store's state that returns a
  result and the next state. Every theorem about the adapter below holds for every such
  record, so for every behaviour of the store.
\<close>

type_synonym LeaseID = "64 word"

text \<open>A Go \<^verbatim>\<open>error\<close> value, identified by its message; \<^verbatim>\<open>nil\<close> is \<open>None\<close>.\<close>

datatype error = Error string

definition errors_New :: "string \<Rightarrow> error" where
  "errors_New msg = Error msg"

text \<open>
  A \<^verbatim>\<open>context.Context\<close>: \<^verbatim>\<open>context.TODO()\<close> and \<^verbatim>\<open>context.Background()\<close>
  carry no deadline, \<^verbatim>\<open>context.WithTimeout(parent, d)\<close> carries one. Durations are
  nanoseconds, as \<^verbatim>\<open>time.Duration\<close> is.
\<close>

datatype Context = TODO | Background | WithTimeout Context int

definition time_Second :: int where
  "time_Second = 1000000000"

definition defaultDialTimeout :: int where
  "defaultDialTimeout = time_Second * 5"

definition defaultGrantTimeout :: int where
  "defaultGrantTimeout = 5"

definition defaultOperationTimeout :: int where
  "defaultOperationTimeout = time_Second * 5"

datatype OpOption = WithLease LeaseID | WithPrefix

record KeyValue =
  Key :: string
  Value :: string

record GetResponse =
  Kvs :: "KeyValue list"

record LeaseGrantResponse =
  ID :: LeaseID

record Config =
  Endpoints :: "string list"
  DialTimeout :: int

text \<open>A watch channel is an opaque handle that the client hands out.\<close>

type_synonym WatchChan = nat

text \<open>\<^verbatim>\<open>type WatchCallback func(clientv3.WatchChan)\<close>; a nil function value is \<open>None\<close>.\<close>

type_synonym WatchCallback = "WatchChan \<Rightarrow> unit"

record 's clientv3 =
  New :: "Config \<Rightarrow> error + 's"
  Grant :: "Context \<Rightarrow> int \<Rightarrow> 's \<Rightarrow> (error + LeaseGrantResponse) \<times> 's"
  Put :: "Context \<Rightarrow> string \<Rightarrow> string \<Rightarrow> OpOption list \<Rightarrow> 's \<Rightarrow> error option \<times> 's"
  KeepAlive :: "Context \<Rightarrow> LeaseID \<Rightarrow> 's \<Rightarrow> error option \<times> 's"
  Delete :: "Context \<Rightarrow> string \<Rightarrow> 's \<Rightarrow> error option \<times> 's"
  Get :: "Context \<Rightarrow> string \<Rightarrow> OpOption list \<Rightarrow> 's \<Rightarrow> (error + GetResponse) \<times> 's"
  Watch :: "Context \<Rightarrow> string \<Rightarrow> OpOption list \<Rightarrow> 's \<Rightarrow> WatchChan \<times> 's"
  Close :: "'s \<Rightarrow> error option \<times> 's"

section \<open>The history of an operation\<close>

text \<open>
  What an operation does besides returning is recorded, in program order, in a history:
  taking and releasing \<^verbatim>\<open>liveKeyIDLock\<close>, reading and writing the \<^verbatim>\<open>liveKeyID\<close>
  map, every call of the client with its arguments, cancelling a timeout context and
  invoking the watch callback. Logging is left out.
\<close>

datatype call =
    Call_New Config
  | Call_Grant Context int
  | Call_Put Context string string "OpOption list"
  | Call_KeepAlive Context LeaseID
  | Call_Delete Context string
  | Call_Get Context string "OpOption list"
  | Call_Watch Context string "OpOption list"
  | Call_Close

datatype event =
    Lock
  | Unlock
  | MapLoad string
  | MapStore string LeaseID
  | MapDelete string
  | Call call
  | Cancel
  | Callback WatchChan

section \<open>The adapter\<close>

text \<open>
  \<^verbatim>\<open>type Etcd struct\<close>. The map \<^verbatim>\<open>liveKeyID\<close> is an association list with one pair
  for each key; its order stands for the order in which the Go runtime happens to range
  over the map, which the language leaves open. The field \<open>trace\<close> is the history; it is
  not a field of the Go struct.
\<close>

record 's Etcd =
  client :: 's
  liveKeyID :: "(string \<times> LeaseID) list"
  trace :: "event list"

definition emit :: "event \<Rightarrow> 's Etcd \<Rightarrow> 's Etcd" where
  "emit ev e = e\<lparr>trace := trace e @ [ev]\<rparr>"

definition liveKeyIDLock_Lock :: "'s Etcd \<Rightarrow> 's Etcd" where
  "liveKeyIDLock_Lock e = emit Lock e"

definition liveKeyIDLock_Unlock :: "'s Etcd \<Rightarrow> 's Etcd" where
  "liveKeyIDLock_Unlock e = emit Unlock e"

text \<open>\<^verbatim>\<open>e.liveKeyID[key]\<close>: the zero lease when the key is absent.\<close>

definition liveKeyID_load :: "string \<Rightarrow> 's Etcd \<Rightarrow> LeaseID \<times> 's Etcd" where
  "liveKeyID_load key e =
     ((case map_of (liveKeyID e) key of None \<Rightarrow> 0 | Some i \<Rightarrow> i), emit (MapLoad key) e)"

text \<open>\<^verbatim>\<open>e.liveKeyID[key] = id\<close>\<close>

definition liveKeyID_store :: "string \<Rightarrow> LeaseID \<Rightarrow> 's Etcd \<Rightarrow> 's Etcd" where
  "liveKeyID_store key i e =
     emit (MapStore key i) (e\<lparr>liveKeyID := AList.update key i (liveKeyID e)\<rparr>)"

text \<open>\<^verbatim>\<open>delete(e.liveKeyID, key)\<close>\<close>

definition liveKeyID_delete :: "string \<Rightarrow> 's Etcd \<Rightarrow> 's Etcd" where
  "liveKeyID_delete key e =
     emit (MapDelete key) (e\<lparr>liveKeyID := AList.delete key (liveKeyID e)\<rparr>)"

text \<open>The calls of \<^verbatim>\<open>e.client\<close>: the store moves on and the call enters the history.\<close>

definition client_Grant ::
  "'s clientv3 \<Rightarrow> Context \<Rightarrow> int \<Rightarrow> 's Etcd \<Rightarrow> (error + LeaseGrantResponse) \<times> 's Etcd" where
  "client_Grant cl ctx ttl e =
     (case Grant cl ctx ttl (client e) of
        (r, s) \<Rightarrow> (r, emit (Call (Call_Grant ctx ttl)) (e\<lparr>client := s\<rparr>)))"

definition client_Put ::
  "'s clientv3 \<Rightarrow> Context \<Rightarrow> string \<Rightarrow> string \<Rightarrow> OpOption list \<Rightarrow> 's Etcd
     \<Rightarrow> error option \<times> 's Etcd" where
  "client_Put cl ctx key val opts e =
     (case Put cl ctx key val opts (client e) of
        (r, s) \<Rightarrow> (r, emit (Call (Call_Put ctx key val opts)) (e\<lparr>client := s\<rparr>)))"

definition client_KeepAlive ::
  "'s clientv3 \<Rightarrow> Context \<Rightarrow> LeaseID \<Rightarrow> 's Etcd \<Rightarrow> error option \<times> 's Etcd" where
  "client_KeepAlive cl ctx i e =
     (case KeepAlive cl ctx i (client e) of
        (r, s) \<Rightarrow> (r, emit (Call (Call_KeepAlive ctx i)) (e\<lparr>client := s\<rparr>)))"

definition client_Delete ::
  "'s clientv3 \<Rightarrow> Context \<Rightarrow> string \<Rightarrow> 's Etcd \<Rightarrow> error option \<times> 's Etcd" where
  "client_Delete cl ctx key e =
     (case Delete cl ctx key (client e) of
        (r, s) \<Rightarrow> (r, emit (Call (Call_Delete ctx key)) (e\<lparr>client := s\<rparr>)))"

definition client_Get ::
  "'s clientv3 \<Rightarrow> Context \<Rightarrow> string \<Rightarrow> OpOption list \<Rightarrow> 's Etcd
     \<Rightarrow> (error + GetResponse) \<times> 's Etcd" where
  "client_Get cl ctx key opts e =
     (case Get cl ctx key opts (client e) of
        (r, s) \<Rightarrow> (r, emit (Call (Call_Get ctx key opts)) (e\<lparr>client := s\<rparr>)))"

definition client_Watch ::
  "'s clientv3 \<Rightarrow> Context \<Rightarrow> string \<Rightarrow> OpOption list \<Rightarrow> 's Etcd \<Rightarrow> WatchChan \<times> 's Etcd" where
  "client_Watch cl ctx key opts e =
     (case Watch cl ctx key opts (client e) of
        (ch, s) \<Rightarrow> (ch, emit (Call (Call_Watch ctx key opts)) (e\<lparr>client := s\<rparr>)))"

definition client_Close :: "'s clientv3 \<Rightarrow> 's Etcd \<Rightarrow> error option \<times> 's Etcd" where
  "client_Close cl e =
     (case Close cl (client e) of
        (r, s) \<Rightarrow> (r, emit (Call Call_Close) (e\<lparr>client := s\<rparr>)))"

text \<open>\<^verbatim>\<open>func newEtcd(endpoints []string) (*Etcd, error)\<close>\<close>

definition newEtcd_Config :: "string list \<Rightarrow> Config" where
  "newEtcd_Config endpoints = \<lparr>Endpoints = endpoints, DialTimeout = defaultDialTimeout\<rparr>"

definition newEtcd :: "'s clientv3 \<Rightarrow> string list \<Rightarrow> error + 's Etcd" where
  "newEtcd cl endpoints =
     (case New cl (newEtcd_Config endpoints) of
        Inl err \<Rightarrow> Inl err
      | Inr cli \<Rightarrow>
          Inr \<lparr>client = cli, liveKeyID = [],
               trace = [Call (Call_New (newEtcd_Config endpoints))]\<rparr>)"

text \<open>\<^verbatim>\<open>func (e *Etcd) keep(key, value string) error\<close>\<close>

definition keep :: "'s clientv3 \<Rightarrow> string \<Rightarrow> string \<Rightarrow> 's Etcd \<Rightarrow> error option \<times> 's Etcd" where
  "keep cl key val e =
     (case client_Grant cl TODO defaultGrantTimeout e of
        (Inl err, e1) \<Rightarrow> (Some err, e1)
      | (Inr resp, e1) \<Rightarrow>
          (case client_Put cl TODO key val [WithLease (ID resp)] e1 of
             (Some err, e2) \<Rightarrow> (Some err, e2)
           | (None, e2) \<Rightarrow>
               (case client_KeepAlive cl TODO (ID resp) e2 of
                  (Some err, e3) \<Rightarrow> (Some err, e3)
                | (None, e3) \<Rightarrow>
                    (None,
                     liveKeyIDLock_Unlock
                       (liveKeyID_store key (ID resp) (liveKeyIDLock_Lock e3))))))"

text \<open>\<^verbatim>\<open>func (e *Etcd) del(key string) error\<close>\<close>

definition del :: "'s clientv3 \<Rightarrow> string \<Rightarrow> 's Etcd \<Rightarrow> error option \<times> 's Etcd" where
  "del cl key e =
     client_Delete cl TODO key
       (liveKeyIDLock_Unlock (liveKeyID_delete key (liveKeyIDLock_Lock e)))"

text \<open>\<^verbatim>\<open>func (e *Etcd) watch(key string, watchFunc WatchCallback, prefix bool) error\<close>\<close>

definition watch ::
  "'s clientv3 \<Rightarrow> string \<Rightarrow> WatchCallback option \<Rightarrow> bool \<Rightarrow> 's Etcd \<Rightarrow> error option \<times> 's Etcd" where
  "watch cl key watchFunc prefix e =
     (case watchFunc of
        None \<Rightarrow> (Some (errors_New ''watchFunc is nil''), e)
      | Some f \<Rightarrow>
          (if prefix
           then (case client_Watch cl Background key [WithPrefix] e of
                   (ch, e1) \<Rightarrow> (None, emit (Callback ch) e1))
           else (case client_Watch cl Background key [] e of
                   (ch, e1) \<Rightarrow> (None, emit (Callback ch) e1))))"

text \<open>\<^verbatim>\<open>func (e *Etcd) close() error\<close>: the errors of the deletes are dropped.\<close>

definition close :: "'s clientv3 \<Rightarrow> 's Etcd \<Rightarrow> error option \<times> 's Etcd" where
  "close cl e =
     (let e1 = liveKeyIDLock_Lock e;
          e2 = fold (\<lambda>k e'. snd (client_Delete cl TODO k e')) (map fst (liveKeyID e1)) e1;
          e3 = liveKeyIDLock_Unlock e2
      in client_Close cl e3)"

text \<open>\<^verbatim>\<open>func (e *Etcd) get(key string) (string, error)\<close>\<close>

definition get :: "'s clientv3 \<Rightarrow> string \<Rightarrow> 's Etcd \<Rightarrow> (string \<times> error option) \<times> 's Etcd" where
  "get cl key e =
     (case client_Get cl (WithTimeout Background defaultOperationTimeout) key [] e of
        (Inl err, e1) \<Rightarrow> (('''', Some err), emit Cancel e1)
      | (Inr resp, e1) \<Rightarrow>
          ((fold (\<lambda>ev val. Value ev) (Kvs resp) '''', None), emit Cancel e1))"

text \<open>
  \<^verbatim>\<open>func (e *Etcd) getByPrefix(key string) (map[string]string, error)\<close>; the nil map
  of the error path is \<open>None\<close>.
\<close>

definition getByPrefix ::
  "'s clientv3 \<Rightarrow> string \<Rightarrow> 's Etcd \<Rightarrow> ((string \<rightharpoonup> string) option \<times> error option) \<times> 's Etcd" where
  "getByPrefix cl key e =
     (case client_Get cl (WithTimeout Background defaultOperationTimeout) key [WithPrefix] e of
        (Inl err, e1) \<Rightarrow> ((None, Some err), emit Cancel e1)
      | (Inr resp, e1) \<Rightarrow>
          ((Some (fold (\<lambda>kv m. m(Key kv \<mapsto> Value kv)) (Kvs resp) Map.empty), None),
           emit Cancel e1))"

text \<open>\<^verbatim>\<open>func (e *Etcd) update(key, value string) error\<close>\<close>

definition update :: "'s clientv3 \<Rightarrow> string \<Rightarrow> string \<Rightarrow> 's Etcd \<Rightarrow> error option \<times> 's Etcd" where
  "update cl key val e =
     (case liveKeyID_load key (liveKeyIDLock_Lock e) of
        (i, e1) \<Rightarrow>
          (case client_Put cl TODO key val [WithLease i] (liveKeyIDLock_Unlock e1) of
             (None, e2) \<Rightarrow> (None, e2)
           | (Some err, e2) \<Rightarrow> keep cl key val e2))"

section \<open>A reference store\<close>

text \<open>
  Modelled from the spec: the backing store, an external collaborator whose code is not in
  the repository (spec, sections 3 and 6). It holds records, each under a lease, the zero
  lease meaning no expiry; it grants fresh leases; a publish under a non-zero lease that
  the store does not hold is reported as a failure; a delete removes the record of the key.
  A script of faults makes single calls fail: each call takes the head of the script, and
  a call that takes an error fails with it and changes nothing else. The concrete runs of
  the adapter below are runs against this store.
\<close>

record Store =
  records :: "(string \<times> string \<times> LeaseID) list"
  leases :: "LeaseID list"
  nextLease :: LeaseID
  faults :: "error option list"

definition next_fault :: "Store \<Rightarrow> error option \<times> Store" where
  "next_fault s = (case faults s of [] \<Rightarrow> (None, s) | f # fs \<Rightarrow> (f, s\<lparr>faults := fs\<rparr>))"

fun lease_of :: "OpOption list \<Rightarrow> LeaseID" where
  "lease_of [] = 0"
| "lease_of (WithLease i # opts) = i"
| "lease_of (WithPrefix # opts) = lease_of opts"

definition has_prefix :: "string \<Rightarrow> string \<Rightarrow> bool" where
  "has_prefix p k = (take (length p) k = p)"

definition store_Grant :: "Context \<Rightarrow> int \<Rightarrow> Store \<Rightarrow> (error + LeaseGrantResponse) \<times> Store" where
  "store_Grant ctx ttl s =
     (case next_fault s of
        (Some err, s1) \<Rightarrow> (Inl err, s1)
      | (None, s1) \<Rightarrow>
          (Inr \<lparr>ID = nextLease s1\<rparr>,
           s1\<lparr>leases := nextLease s1 # leases s1, nextLease := nextLease s1 + 1\<rparr>))"

definition store_Put ::
  "Context \<Rightarrow> string \<Rightarrow> string \<Rightarrow> OpOption list \<Rightarrow> Store \<Rightarrow> error option \<times> Store" where
  "store_Put ctx key val opts s =
     (case next_fault s of
        (Some err, s1) \<Rightarrow> (Some err, s1)
      | (None, s1) \<Rightarrow>
          (if lease_of opts \<noteq> 0 \<and> lease_of opts \<notin> set (leases s1)
           then (Some (Error ''requested lease not found''), s1)
           else (None, s1\<lparr>records := AList.update key (val, lease_of opts) (records s1)\<rparr>)))"

definition store_KeepAlive :: "Context \<Rightarrow> LeaseID \<Rightarrow> Store \<Rightarrow> error option \<times> Store" where
  "store_KeepAlive ctx i s = next_fault s"

definition store_Delete :: "Context \<Rightarrow> string \<Rightarrow> Store \<Rightarrow> error option \<times> Store" where
  "store_Delete ctx key s =
     (case next_fault s of
        (Some err, s1) \<Rightarrow> (Some err, s1)
      | (None, s1) \<Rightarrow> (None, s1\<lparr>records := AList.delete key (records s1)\<rparr>))"

definition store_Get ::
  "Context \<Rightarrow> string \<Rightarrow> OpOption list \<Rightarrow> Store \<Rightarrow> (error + GetResponse) \<times> Store" where
  "store_Get ctx key opts s =
     (case next_fault s of
        (Some err, s1) \<Rightarrow> (Inl err, s1)
      | (None, s1) \<Rightarrow>
          (Inr \<lparr>Kvs = map (\<lambda>(k, v, i). \<lparr>Key = k, Value = v\<rparr>)
                        (filter (\<lambda>(k, v, i). if WithPrefix \<in> set opts then has_prefix key k
                                              else k = key)
                           (records s1))\<rparr>,
           s1))"

definition store_Watch :: "Context \<Rightarrow> string \<Rightarrow> OpOption list \<Rightarrow> Store \<Rightarrow> WatchChan \<times> Store" where
  "store_Watch ctx key opts s = (0, s)"

definition store_Close :: "Store \<Rightarrow> error option \<times> Store" where
  "store_Close s = next_fault s"

text \<open>The client library over a store \<open>s0\<close> that is already running.\<close>

definition store_client :: "Store \<Rightarrow> Store clientv3" where
  "store_client s0 =
     \<lparr>New = (\<lambda>cfg. if Endpoints cfg = [] then Inl (Error ''no endpoints'') else Inr s0),
      Grant = store_Grant, Put = store_Put, KeepAlive = store_KeepAlive,
      Delete = store_Delete, Get = store_Get, Watch = store_Watch, Close = store_Close\<rparr>"

definition empty_store :: Store where
  "empty_store = \<lparr>records = [], leases = [], nextLease = 1, faults = []\<rparr>"

definition failing :: "error option list \<Rightarrow> Store \<Rightarrow> Store" where
  "failing fs s = s\<lparr>faults := fs\<rparr>"

definition connected :: "Store \<Rightarrow> Store Etcd" where
  "connected s = \<lparr>client = s, liveKeyID = [], trace = []\<rparr>"

section \<open>Reading a history\<close>

text \<open>The events an operation added to the history, from the state before and after it.\<close>

definition emitted :: "'s Etcd \<Rightarrow> 's Etcd \<Rightarrow> event list" where
  "emitted e e' = drop (length (trace e)) (trace e')"

text \<open>Concrete runs: a registry after a successful or attempted \<open>keep\<close>, and a store that starts to fail.\<close>

definition after_keep :: "string \<Rightarrow> string \<Rightarrow> Store Etcd \<Rightarrow> Store Etcd" where
  "after_keep key val e = snd (keep (store_client empty_store) key val e)"

definition with_faults :: "error option list \<Rightarrow> Store Etcd \<Rightarrow> Store Etcd" where
  "with_faults fs e = e\<lparr>client := failing fs (client e)\<rparr>"

text \<open>The client calls of a history, in order.\<close>

fun calls :: "event list \<Rightarrow> call list" where
  "calls [] = []"
| "calls (Call c # es) = c # calls es"
| "calls (ev # es) = calls es"

text \<open>
  No client call is issued while \<^verbatim>\<open>liveKeyIDLock\<close> is held; the flag says whether the
  lock is held where the history starts.
\<close>

fun unlocked_calls :: "bool \<Rightarrow> event list \<Rightarrow> bool" where
  "unlocked_calls held [] = True"
| "unlocked_calls held (Lock # es) = unlocked_calls True es"
| "unlocked_calls held (Unlock # es) = unlocked_calls False es"
| "unlocked_calls held (Call c # es) = (\<not> held \<and> unlocked_calls held es)"
| "unlocked_calls held (ev # es) = unlocked_calls held es"

text \<open>
  The time bound a call is issued with: the deadline of its context, the dial timeout
  of the configuration when it is positive (the client dials without one otherwise);
  closing the connection takes no context.
\<close>

fun deadline :: "Context \<Rightarrow> int option" where
  "deadline TODO = None"
| "deadline Background = None"
| "deadline (WithTimeout parent d) =
     (case deadline parent of None \<Rightarrow> Some d | Some d' \<Rightarrow> Some (min d d'))"

fun call_timeout :: "call \<Rightarrow> int option" where
  "call_timeout (Call_New cfg) = (if 0 < DialTimeout cfg then Some (DialTimeout cfg) else None)"
| "call_timeout (Call_Grant ctx ttl) = deadline ctx"
| "call_timeout (Call_Put ctx key val opts) = deadline ctx"
| "call_timeout (Call_KeepAlive ctx i) = deadline ctx"
| "call_timeout (Call_Delete ctx key) = deadline ctx"
| "call_timeout (Call_Get ctx key opts) = deadline ctx"
| "call_timeout (Call_Watch ctx key opts) = deadline ctx"
| "call_timeout Call_Close = None"

text \<open>The fault that the call after \<open>i\<close> further calls will take from the script.\<close>

definition pending_fault :: "Store \<Rightarrow> nat \<Rightarrow> error option" where
  "pending_fault s i = (if i < length (faults s) then faults s ! i else None)"

text \<open>
  Store-side expiry of every lease: the leases are gone and, with them, the records
  published under them.
\<close>

definition leases_expired :: "Store Etcd \<Rightarrow> Store Etcd" where
  "leases_expired e =
     e\<lparr>client := (client e)\<lparr>records := filter (\<lambda>(k, v, i). i = 0) (records (client e)),
                              leases := []\<rparr>\<rparr>"

section \<open>Unfolding\<close>

lemmas prim_defs = emit_def liveKeyIDLock_Lock_def liveKeyIDLock_Unlock_def liveKeyID_load_def
  liveKeyID_store_def liveKeyID_delete_def client_Grant_def client_Put_def client_KeepAlive_def
  client_Delete_def client_Get_def client_Watch_def client_Close_def

lemmas store_defs = store_client_def store_Grant_def store_Put_def store_KeepAlive_def
  store_Delete_def store_Get_def store_Watch_def store_Close_def next_fault_def empty_store_def
  failing_def connected_def with_faults_def

lemma after_keep_a:
  "after_keep ''a'' ''1'' (connected empty_store) =
     \<lparr>client = \<lparr>records = [(''a'', ''1'', 1)], leases = [1], nextLease = 2, faults = []\<rparr>,
      liveKeyID = [(''a'', 1)],
      trace = [Call (Call_Grant TODO 5), Call (Call_Put TODO ''a'' ''1'' [WithLease 1]),
               Call (Call_KeepAlive TODO 1), Lock, MapStore ''a'' 1, Unlock]\<rparr>"
  by (simp add: after_keep_def keep_def prim_defs store_defs defaultGrantTimeout_def)

lemma after_keep_a_b:
  "after_keep ''b'' ''2'' (after_keep ''a'' ''1'' (connected empty_store)) =
     \<lparr>client = \<lparr>records = [(''a'', ''1'', 1), (''b'', ''2'', 2)], leases = [2, 1],
                 nextLease = 3, faults = []\<rparr>,
      liveKeyID = [(''a'', 1), (''b'', 2)],
      trace = [Call (Call_Grant TODO 5), Call (Call_Put TODO ''a'' ''1'' [WithLease 1]),
               Call (Call_KeepAlive TODO 1), Lock, MapStore ''a'' 1, Unlock,
               Call (Call_Grant TODO 5), Call (Call_Put TODO ''b'' ''2'' [WithLease 2]),
               Call (Call_KeepAlive TODO 2), Lock, MapStore ''b'' 2, Unlock]\<rparr>"
  by (simp add: after_keep_a)
     (simp add: after_keep_def keep_def prim_defs store_defs defaultGrantTimeout_def)

section \<open>The sweep of \<open>close\<close>\<close>

lemma sweep_trace:
  "trace (fold (\<lambda>k e'. snd (client_Delete cl TODO k e')) ks e) =
     trace e @ map (\<lambda>k. Call (Call_Delete TODO k)) ks"
  by (induction ks arbitrary: e) (simp_all add: client_Delete_def emit_def split: prod.splits)

lemma sweep_liveKeyID:
  "liveKeyID (fold (\<lambda>k e'. snd (client_Delete cl TODO k e')) ks e) = liveKeyID e"
  by (induction ks arbitrary: e) (simp_all add: client_Delete_def emit_def split: prod.splits)

lemma close_emitted:
  "emitted e (snd (close cl e)) =
     Lock # map (\<lambda>k. Call (Call_Delete TODO k)) (map fst (liveKeyID e)) @
       [Unlock, Call Call_Close]"
  by (simp add: close_def Let_def client_Close_def liveKeyIDLock_Lock_def
        liveKeyIDLock_Unlock_def emit_def emitted_def sweep_trace sweep_liveKeyID
        split: prod.splits)

lemma unlocked_calls_sweep:
  "unlocked_calls True (map (\<lambda>k. Call (Call_Delete TODO k)) ks @ es) =
     (ks = [] \<and> unlocked_calls True es)"
  by (induction ks) auto

lemma calls_sweep:
  "calls (map (\<lambda>k. Call (Call_Delete TODO k)) ks @ es) = map (Call_Delete TODO) ks @ calls es"
  by (induction ks) auto

text \<open>On the reference store the sweep is a run of store deletes.\<close>

lemma sweep_client:
  "client (fold (\<lambda>k e'. snd (client_Delete (store_client st) TODO k e')) ks e) =
     fold (\<lambda>k s. snd (store_Delete TODO k s)) ks (client e)"
  by (induction ks arbitrary: e)
     (simp_all add: client_Delete_def emit_def store_client_def split: prod.splits)

lemma store_Delete_absent:
  "map_of (records s) k = None \<Longrightarrow> map_of (records (snd (store_Delete TODO k' s))) k = None"
  by (auto simp add: store_Delete_def next_fault_def delete_conv'
        split: list.splits option.splits)

lemma sweep_absent:
  "map_of (records s) k = None \<Longrightarrow>
   map_of (records (fold (\<lambda>k s. snd (store_Delete TODO k s)) ks s)) k = None"
  by (induction ks arbitrary: s) (simp_all add: store_Delete_absent)

lemma store_Delete_faults: "faults (snd (store_Delete TODO k s)) = tl (faults s)"
  by (simp add: store_Delete_def next_fault_def split: list.splits option.splits)

lemma pending_fault_Suc:
  "pending_fault (snd (store_Delete TODO k s)) i = pending_fault s (Suc i)"
  by (cases "faults s") (simp_all add: pending_fault_def store_Delete_faults)

lemma store_Delete_done:
  "pending_fault s 0 = None \<Longrightarrow> map_of (records (snd (store_Delete TODO k s))) k = None"
  by (auto simp add: store_Delete_def next_fault_def pending_fault_def delete_conv'
        split: list.splits option.splits)

lemma sweep_deleted:
  "i < length ks \<Longrightarrow> pending_fault s i = None \<Longrightarrow>
   map_of (records (fold (\<lambda>k s. snd (store_Delete TODO k s)) ks s)) (ks ! i) = None"
proof (induction ks arbitrary: s i)
  case Nil
  then show ?case by simp
next
  case (Cons k ks)
  show ?case
  proof (cases i)
    case 0
    with Cons.prems show ?thesis
      by (simp add: sweep_absent store_Delete_done)
  next
    case (Suc j)
    with Cons.prems have "j < length ks" "pending_fault (snd (store_Delete TODO k s)) j = None"
      by (simp_all add: pending_fault_Suc)
    from Cons.IH [OF this] Suc show ?thesis by simp
  qed
qed

lemma close_records:
  "records (client (snd (close (store_client st) e))) =
     records (fold (\<lambda>k s. snd (store_Delete TODO k s)) (map fst (liveKeyID e)) (client e))"
proof -
  have "records (snd (store_Close s)) = records s" for s
    by (simp add: store_Close_def next_fault_def split: list.splits)
  moreover have "Close (store_client st) = store_Close"
    by (simp add: store_client_def)
  ultimately show ?thesis
    by (simp add: close_def Let_def client_Close_def liveKeyIDLock_Lock_def
          liveKeyIDLock_Unlock_def emit_def sweep_client split: prod.splits)
       (metis snd_conv)
qed

lemma fold_last_Value: "kvs \<noteq> [] \<Longrightarrow> fold (\<lambda>ev val. Value ev) kvs v = Value (last kvs)"
  by (induction kvs arbitrary: v) auto

lemma filter_key_absent:
  "map_of xs key = None \<Longrightarrow> filter (\<lambda>(k, v, i). k = key) xs = []"
  by (induction xs) (auto split: if_splits)

section \<open>Registration: \<open>keep\<close>\<close>

text \<open>
  C1, as the code has it. Whichever of the three store calls of \<open>keep\<close> fails (the grant,
  the put under the new lease, the keep-alive), \<open>keep\<close> returns the error of that call and
  leaves the ledger \<open>liveKeyID\<close> exactly as it was, so the entry of the key, if it had one,
  is still there and no entry appears. The ledger is written only when all three calls
  have succeeded: then the key is bound to the new lease, and the write comes after the
  three calls in the history.
\<close>

theorem keep_failure_leaves_ledger:
  "(\<forall>err s1. Grant cl TODO defaultGrantTimeout (client e) = (Inl err, s1) \<longrightarrow>
      fst (keep cl key val e) = Some err \<and>
      liveKeyID (snd (keep cl key val e)) = liveKeyID e) \<and>
   (\<forall>resp s1 err s2.
      Grant cl TODO defaultGrantTimeout (client e) = (Inr resp, s1) \<and>
      Put cl TODO key val [WithLease (ID resp)] s1 = (Some err, s2) \<longrightarrow>
      fst (keep cl key val e) = Some err \<and>
      liveKeyID (snd (keep cl key val e)) = liveKeyID e) \<and>
   (\<forall>resp s1 s2 err s3.
      Grant cl TODO defaultGrantTimeout (client e) = (Inr resp, s1) \<and>
      Put cl TODO key val [WithLease (ID resp)] s1 = (None, s2) \<and>
      KeepAlive cl TODO (ID resp) s2 = (Some err, s3) \<longrightarrow>
      fst (keep cl key val e) = Some err \<and>
      liveKeyID (snd (keep cl key val e)) = liveKeyID e) \<and>
   (\<forall>resp s1 s2 s3.
      Grant cl TODO defaultGrantTimeout (client e) = (Inr resp, s1) \<and>
      Put cl TODO key val [WithLease (ID resp)] s1 = (None, s2) \<and>
      KeepAlive cl TODO (ID resp) s2 = (None, s3) \<longrightarrow>
      fst (keep cl key val e) = None \<and>
      liveKeyID (snd (keep cl key val e)) = AList.update key (ID resp) (liveKeyID e) \<and>
      emitted e (snd (keep cl key val e)) =
        [Call (Call_Grant TODO defaultGrantTimeout),
         Call (Call_Put TODO key val [WithLease (ID resp)]),
         Call (Call_KeepAlive TODO (ID resp)),
         Lock, MapStore key (ID resp), Unlock])"
  by (simp add: keep_def prim_defs emitted_def)

text \<open>
  The four cases on the reference store: the first, second and third call of a
  registration fails, and none fails.
\<close>

theorem keep_failure_leaves_ledger_witness:
  "store_Grant TODO defaultGrantTimeout (failing [Some (Error ''unavailable'')] empty_store)
     = (Inl (Error ''unavailable''), empty_store) \<and>
   fst (keep (store_client empty_store) ''a'' ''1''
          (connected (failing [Some (Error ''unavailable'')] empty_store)))
     = Some (Error ''unavailable'') \<and>
   liveKeyID (snd (keep (store_client empty_store) ''a'' ''1''
          (connected (failing [Some (Error ''unavailable'')] empty_store)))) = [] \<and>
   fst (keep (store_client empty_store) ''a'' ''1''
          (connected (failing [None, Some (Error ''unavailable'')] empty_store)))
     = Some (Error ''unavailable'') \<and>
   liveKeyID (snd (keep (store_client empty_store) ''a'' ''1''
          (connected (failing [None, Some (Error ''unavailable'')] empty_store)))) = [] \<and>
   fst (keep (store_client empty_store) ''a'' ''1''
          (connected (failing [None, None, Some (Error ''unavailable'')] empty_store)))
     = Some (Error ''unavailable'') \<and>
   liveKeyID (snd (keep (store_client empty_store) ''a'' ''1''
          (connected (failing [None, None, Some (Error ''unavailable'')] empty_store)))) = [] \<and>
   fst (keep (store_client empty_store) ''a'' ''1'' (connected empty_store)) = None \<and>
   liveKeyID (snd (keep (store_client empty_store) ''a'' ''1'' (connected empty_store)))
     = [(''a'', 1)]"
  using
    keep_failure_leaves_ledger [of "store_client empty_store"
      "connected (failing [Some (Error ''unavailable'')] empty_store)" "''a''" "''1''"]
    keep_failure_leaves_ledger [of "store_client empty_store"
      "connected (failing [None, Some (Error ''unavailable'')] empty_store)" "''a''" "''1''"]
    keep_failure_leaves_ledger [of "store_client empty_store"
      "connected (failing [None, None, Some (Error ''unavailable'')] empty_store)" "''a''" "''1''"]
    keep_failure_leaves_ledger [of "store_client empty_store"
      "connected empty_store" "''a''" "''1''"]
  by (simp add: store_defs)

text \<open>
  C1 as it is written fails where the key already has an entry: a registry that holds
  \<open>''a''\<close> under lease 1 registers \<open>''a''\<close> again, the grant fails, \<open>keep\<close> returns the
  error, and the ledger still holds \<open>''a''\<close>.
\<close>

theorem keep_failure_entry_counterexample:
  "fst (keep (store_client empty_store) ''a'' ''2''
         (with_faults [Some (Error ''unavailable'')]
            (after_keep ''a'' ''1'' (connected empty_store))))
     = Some (Error ''unavailable'') \<and>
   map_of (liveKeyID (snd (keep (store_client empty_store) ''a'' ''2''
         (with_faults [Some (Error ''unavailable'')]
            (after_keep ''a'' ''1'' (connected empty_store))))))
     ''a'' = Some 1"
  by (simp add: after_keep_a) (simp add: keep_def prim_defs store_defs)

section \<open>Update and self-heal: \<open>update\<close>\<close>

text \<open>
  C2. When the put of \<open>update\<close> under the looked-up lease fails, its error is dropped and
  \<open>update\<close> runs the registration for the same key and value from the state the failed put
  left: the grant, the put of the key and value under the granted lease, the keep-alive
  of that lease and, under the lock, the write of the key and the lease into the ledger,
  in this order after the failed put. \<open>update\<close> then returns no error. When the grant,
  the second put or the keep-alive fails, \<open>update\<close> stops there, returns the error of that
  call and leaves the ledger as it was. In every case \<open>update\<close> is \<open>keep\<close> on the state
  after the failed put. When the first put succeeds, \<open>update\<close> returns no error and makes
  no further call.
\<close>

theorem update_heals:
  "(\<forall>err s1.
      Put cl TODO key val [WithLease (fst (liveKeyID_load key e))] (client e) = (Some err, s1) \<longrightarrow>
      update cl key val e =
        keep cl key val
          (e\<lparr>client := s1,
             trace := trace e @ [Lock, MapLoad key, Unlock,
               Call (Call_Put TODO key val [WithLease (fst (liveKeyID_load key e))])]\<rparr>)) \<and>
   (\<forall>err s1 resp s2 s3 s4.
      Put cl TODO key val [WithLease (fst (liveKeyID_load key e))] (client e) = (Some err, s1) \<and>
      Grant cl TODO defaultGrantTimeout s1 = (Inr resp, s2) \<and>
      Put cl TODO key val [WithLease (ID resp)] s2 = (None, s3) \<and>
      KeepAlive cl TODO (ID resp) s3 = (None, s4) \<longrightarrow>
      update cl key val e =
        (None,
         e\<lparr>client := s4,
           liveKeyID := AList.update key (ID resp) (liveKeyID e),
           trace := trace e @
             [Lock, MapLoad key, Unlock,
              Call (Call_Put TODO key val [WithLease (fst (liveKeyID_load key e))]),
              Call (Call_Grant TODO defaultGrantTimeout),
              Call (Call_Put TODO key val [WithLease (ID resp)]),
              Call (Call_KeepAlive TODO (ID resp)),
              Lock, MapStore key (ID resp), Unlock]\<rparr>)) \<and>
   (\<forall>err s1 gerr s2.
      Put cl TODO key val [WithLease (fst (liveKeyID_load key e))] (client e) = (Some err, s1) \<and>
      Grant cl TODO defaultGrantTimeout s1 = (Inl gerr, s2) \<longrightarrow>
      update cl key val e =
        (Some gerr,
         e\<lparr>client := s2,
           trace := trace e @
             [Lock, MapLoad key, Unlock,
              Call (Call_Put TODO key val [WithLease (fst (liveKeyID_load key e))]),
              Call (Call_Grant TODO defaultGrantTimeout)]\<rparr>)) \<and>
   (\<forall>err s1 resp s2 perr s3.
      Put cl TODO key val [WithLease (fst (liveKeyID_load key e))] (client e) = (Some err, s1) \<and>
      Grant cl TODO defaultGrantTimeout s1 = (Inr resp, s2) \<and>
      Put cl TODO key val [WithLease (ID resp)] s2 = (Some perr, s3) \<longrightarrow>
      update cl key val e =
        (Some perr,
         e\<lparr>client := s3,
           trace := trace e @
             [Lock, MapLoad key, Unlock,
              Call (Call_Put TODO key val [WithLease (fst (liveKeyID_load key e))]),
              Call (Call_Grant TODO defaultGrantTimeout),
              Call (Call_Put TODO key val [WithLease (ID resp)])]\<rparr>)) \<and>
   (\<forall>err s1 resp s2 s3 kerr s4.
      Put cl TODO key val [WithLease (fst (liveKeyID_load key e))] (client e) = (Some err, s1) \<and>
      Grant cl TODO defaultGrantTimeout s1 = (Inr resp, s2) \<and>
      Put cl TODO key val [WithLease (ID resp)] s2 = (None, s3) \<and>
      KeepAlive cl TODO (ID resp) s3 = (Some kerr, s4) \<longrightarrow>
      update cl key val e =
        (Some kerr,
         e\<lparr>client := s4,
           trace := trace e @
             [Lock, MapLoad key, Unlock,
              Call (Call_Put TODO key val [WithLease (fst (liveKeyID_load key e))]),
              Call (Call_Grant TODO defaultGrantTimeout),
              Call (Call_Put TODO key val [WithLease (ID resp)]),
              Call (Call_KeepAlive TODO (ID resp))]\<rparr>)) \<and>
   (\<forall>s1.
      Put cl TODO key val [WithLease (fst (liveKeyID_load key e))] (client e) = (None, s1) \<longrightarrow>
      update cl key val e =
        (None,
         e\<lparr>client := s1,
           trace := trace e @
             [Lock, MapLoad key, Unlock,
              Call (Call_Put TODO key val [WithLease (fst (liveKeyID_load key e))])]\<rparr>))"
  by (simp add: update_def keep_def prim_defs)

text \<open>
  Three runs on the reference store. The registry holds \<open>''a''\<close> under lease 1 and the
  store has let the lease expire. In the first run the put under lease 1 fails and the
  heal goes through: the history is the failed put, the grant, the put under the fresh
  lease 2, the keep-alive of lease 2 and the ledger write; the store holds \<open>''a''\<close> with
  the new value under lease 2, the ledger holds \<open>''a''\<close> under lease 2, and \<open>update\<close>
  returns no error. In the second run the grant of the heal fails too: \<open>update\<close> returns
  the error of the grant, after the failed put and the grant only, and the ledger still
  holds \<open>''a''\<close> under lease 1. In the third run, on a fresh registry, the put under the
  zero lease succeeds and is the only call.
\<close>

theorem update_heals_witness:
  "fst (liveKeyID_load ''a'' (leases_expired (after_keep ''a'' ''1'' (connected empty_store)))) = 1 \<and>
   fst (store_Put TODO ''a'' ''2'' [WithLease 1]
          (client (leases_expired (after_keep ''a'' ''1'' (connected empty_store)))))
     = Some (Error ''requested lease not found'') \<and>
   update (store_client empty_store) ''a'' ''2''
       (leases_expired (after_keep ''a'' ''1'' (connected empty_store))) =
     (None,
      \<lparr>client = \<lparr>records = [(''a'', ''2'', 2)], leases = [2], nextLease = 3, faults = []\<rparr>,
       liveKeyID = [(''a'', 2)],
       trace = [Call (Call_Grant TODO 5), Call (Call_Put TODO ''a'' ''1'' [WithLease 1]),
                Call (Call_KeepAlive TODO 1), Lock, MapStore ''a'' 1, Unlock,
                Lock, MapLoad ''a'', Unlock,
                Call (Call_Put TODO ''a'' ''2'' [WithLease 1]),
                Call (Call_Grant TODO 5),
                Call (Call_Put TODO ''a'' ''2'' [WithLease 2]),
                Call (Call_KeepAlive TODO 2),
                Lock, MapStore ''a'' 2, Unlock]\<rparr>) \<and>
   update (store_client empty_store) ''a'' ''2''
       (with_faults [None, Some (Error ''unavailable'')]
          (leases_expired (after_keep ''a'' ''1'' (connected empty_store)))) =
     (Some (Error ''unavailable''),
      \<lparr>client = \<lparr>records = [], leases = [], nextLease = 2, faults = []\<rparr>,
       liveKeyID = [(''a'', 1)],
       trace = [Call (Call_Grant TODO 5), Call (Call_Put TODO ''a'' ''1'' [WithLease 1]),
                Call (Call_KeepAlive TODO 1), Lock, MapStore ''a'' 1, Unlock,
                Lock, MapLoad ''a'', Unlock,
                Call (Call_Put TODO ''a'' ''2'' [WithLease 1]),
                Call (Call_Grant TODO 5)]\<rparr>) \<and>
   update (store_client empty_store) ''a'' ''2'' (connected empty_store) =
     (None,
      \<lparr>client = \<lparr>records = [(''a'', ''2'', 0)], leases = [], nextLease = 1, faults = []\<rparr>,
       liveKeyID = [],
       trace = [Lock, MapLoad ''a'', Unlock, Call (Call_Put TODO ''a'' ''2'' [WithLease 0])]\<rparr>)"
  using
    update_heals [of "store_client empty_store" "''a''" "''2''"
      "leases_expired (after_keep ''a'' ''1'' (connected empty_store))", THEN conjunct2]
    update_heals [of "store_client empty_store" "''a''" "''2''"
      "with_faults [None, Some (Error ''unavailable'')]
         (leases_expired (after_keep ''a'' ''1'' (connected empty_store)))", THEN conjunct2]
    update_heals [of "store_client empty_store" "''a''" "''2''" "connected empty_store",
      THEN conjunct2]
  by (simp add: after_keep_a leases_expired_def with_faults_def failing_def)
     (simp add: liveKeyID_load_def emit_def store_defs defaultGrantTimeout_def)

section \<open>The scope of the ledger lock\<close>

text \<open>
  C3, as the code has it. In \<open>keep\<close>, \<open>update\<close>, \<open>del\<close>, \<open>get\<close>, \<open>getByPrefix\<close> and
  \<open>watch\<close> no client call is issued while \<^verbatim>\<open>liveKeyIDLock\<close> is held, and \<open>get\<close>,
  \<open>getByPrefix\<close> and \<open>watch\<close> never take the lock. \<open>close\<close> takes the
  lock, issues every delete of its sweep while holding it, releases it and only then
  closes the connection: the history of \<open>close\<close> is the lock, one delete per ledger key,
  the unlock, the close of the connection, so it has a call under the lock as soon as
  the ledger is not empty.
\<close>

theorem lock_scope:
  "unlocked_calls False (emitted e (snd (keep cl key val e))) \<and>
   unlocked_calls False (emitted e (snd (update cl key val e))) \<and>
   unlocked_calls False (emitted e (snd (del cl key e))) \<and>
   unlocked_calls False (emitted e (snd (get cl key e))) \<and>
   unlocked_calls False (emitted e (snd (getByPrefix cl key e))) \<and>
   unlocked_calls False (emitted e (snd (watch cl key watchFunc prefix e))) \<and>
   Lock \<notin> set (emitted e (snd (get cl key e))) \<and>
   Lock \<notin> set (emitted e (snd (getByPrefix cl key e))) \<and>
   Lock \<notin> set (emitted e (snd (watch cl key watchFunc prefix e))) \<and>
   emitted e (snd (close cl e)) =
     Lock # map (\<lambda>k. Call (Call_Delete TODO k)) (map fst (liveKeyID e)) @
       [Unlock, Call Call_Close] \<and>
   unlocked_calls False (emitted e (snd (close cl e))) = (liveKeyID e = [])"
proof -
  have ng: "Lock \<notin> set (emitted e (snd (get cl key e)))"
    by (simp add: get_def prim_defs emitted_def split: prod.splits sum.splits)
  have np: "Lock \<notin> set (emitted e (snd (getByPrefix cl key e)))"
    by (simp add: getByPrefix_def prim_defs emitted_def split: prod.splits sum.splits)
  have nw: "Lock \<notin> set (emitted e (snd (watch cl key watchFunc prefix e)))"
    by (simp add: watch_def prim_defs emitted_def split: prod.splits option.splits)
  have k: "unlocked_calls False (emitted e (snd (keep cl key val e)))"
    by (simp add: keep_def prim_defs emitted_def split: prod.splits sum.splits option.splits)
  have u: "unlocked_calls False (emitted e (snd (update cl key val e)))"
    by (simp add: update_def keep_def prim_defs emitted_def
          split: prod.splits sum.splits option.splits)
  have d: "unlocked_calls False (emitted e (snd (del cl key e)))"
    by (simp add: del_def prim_defs emitted_def split: prod.splits)
  have g: "unlocked_calls False (emitted e (snd (get cl key e)))"
    by (simp add: get_def prim_defs emitted_def split: prod.splits sum.splits)
  have p: "unlocked_calls False (emitted e (snd (getByPrefix cl key e)))"
    by (simp add: getByPrefix_def prim_defs emitted_def split: prod.splits sum.splits)
  have w: "unlocked_calls False (emitted e (snd (watch cl key watchFunc prefix e)))"
    by (simp add: watch_def prim_defs emitted_def split: prod.splits option.splits)
  have c: "unlocked_calls False (emitted e (snd (close cl e))) = (liveKeyID e = [])"
    by (simp add: close_emitted unlocked_calls_sweep del: map_map)
  from k u d g p w ng np nw c close_emitted show ?thesis by blast
qed

text \<open>
  C3 as it is written fails for \<open>close\<close>: on a registry that holds \<open>''a''\<close>, the delete of
  \<open>''a''\<close> is issued between the lock and the unlock.
\<close>

theorem close_locked_sweep_counterexample:
  "emitted (after_keep ''a'' ''1'' (connected empty_store))
     (snd (close (store_client empty_store) (after_keep ''a'' ''1'' (connected empty_store))))
     = [Lock, Call (Call_Delete TODO ''a''), Unlock, Call Call_Close] \<and>
   \<not> unlocked_calls False
       (emitted (after_keep ''a'' ''1'' (connected empty_store))
          (snd (close (store_client empty_store)
                 (after_keep ''a'' ''1'' (connected empty_store)))))"
  by (simp add: close_emitted after_keep_a)

section \<open>Timeouts\<close>

text \<open>
  C4, as the code has it. Only the dial and the two point reads carry a time bound:
  \<open>newEtcd\<close> dials with a dial timeout of five seconds, and the one call of \<open>get\<close> and of
  \<open>getByPrefix\<close> is issued under a context with a timeout of five seconds. Every call of
  \<open>keep\<close>, \<open>update\<close>, \<open>del\<close>, \<open>close\<close> and \<open>watch\<close> (grant, put, keep-alive, delete, watch,
  close of the connection) is issued with no time bound: under \<^verbatim>\<open>context.TODO()\<close> or
  \<^verbatim>\<open>context.Background()\<close>, or with no context at all.
\<close>

theorem call_timeouts:
  "(\<forall>e0. newEtcd cl endpoints = Inr e0 \<longrightarrow>
      map call_timeout (calls (trace e0)) = [Some (5 * time_Second)]) \<and>
   map call_timeout (calls (emitted e (snd (get cl key e)))) = [Some (5 * time_Second)] \<and>
   map call_timeout (calls (emitted e (snd (getByPrefix cl key e)))) = [Some (5 * time_Second)] \<and>
   list_all (\<lambda>c. call_timeout c = None) (calls (emitted e (snd (keep cl key val e)))) \<and>
   list_all (\<lambda>c. call_timeout c = None) (calls (emitted e (snd (update cl key val e)))) \<and>
   list_all (\<lambda>c. call_timeout c = None) (calls (emitted e (snd (del cl key e)))) \<and>
   list_all (\<lambda>c. call_timeout c = None) (calls (emitted e (snd (close cl e)))) \<and>
   list_all (\<lambda>c. call_timeout c = None)
     (calls (emitted e (snd (watch cl key watchFunc prefix e))))"
proof -
  have n: "\<forall>e0. newEtcd cl endpoints = Inr e0 \<longrightarrow>
      map call_timeout (calls (trace e0)) = [Some (5 * time_Second)]"
    by (auto simp add: newEtcd_def newEtcd_Config_def defaultDialTimeout_def time_Second_def
          split: sum.splits)
  have g: "map call_timeout (calls (emitted e (snd (get cl key e)))) = [Some (5 * time_Second)]"
    by (simp add: get_def prim_defs emitted_def defaultOperationTimeout_def
          split: prod.splits sum.splits)
  have p: "map call_timeout (calls (emitted e (snd (getByPrefix cl key e))))
             = [Some (5 * time_Second)]"
    by (simp add: getByPrefix_def prim_defs emitted_def defaultOperationTimeout_def
          split: prod.splits sum.splits)
  have k: "list_all (\<lambda>c. call_timeout c = None) (calls (emitted e (snd (keep cl key val e))))"
    by (simp add: keep_def prim_defs emitted_def split: prod.splits sum.splits option.splits)
  have u: "list_all (\<lambda>c. call_timeout c = None) (calls (emitted e (snd (update cl key val e))))"
    by (simp add: update_def keep_def prim_defs emitted_def
          split: prod.splits sum.splits option.splits)
  have d: "list_all (\<lambda>c. call_timeout c = None) (calls (emitted e (snd (del cl key e))))"
    by (simp add: del_def prim_defs emitted_def split: prod.splits)
  have c: "list_all (\<lambda>c. call_timeout c = None) (calls (emitted e (snd (close cl e))))"
    by (simp add: close_emitted calls_sweep list_all_iff del: map_map)
  have w: "list_all (\<lambda>c. call_timeout c = None)
             (calls (emitted e (snd (watch cl key watchFunc prefix e))))"
    by (simp add: watch_def prim_defs emitted_def split: prod.splits option.splits)
  from n g p k u d c w show ?thesis by blast
qed

text \<open>A dial of the reference store: the one call of the new registry has the five seconds.\<close>

theorem call_timeouts_witness:
  "newEtcd (store_client empty_store) [''127.0.0.1:2379''] =
     Inr \<lparr>client = empty_store, liveKeyID = [],
          trace = [Call (Call_New \<lparr>Endpoints = [''127.0.0.1:2379''],
                                   DialTimeout = 5000000000\<rparr>)]\<rparr> \<and>
   map call_timeout
     (calls [Call (Call_New \<lparr>Endpoints = [''127.0.0.1:2379''], DialTimeout = 5000000000\<rparr>)])
     = [Some (5 * time_Second)]"
  using call_timeouts [of "store_client empty_store" "[''127.0.0.1:2379'']"]
  by (simp add: newEtcd_def newEtcd_Config_def store_client_def defaultDialTimeout_def
        time_Second_def)

text \<open>
  C4 as it is written fails for the calls of a registration: the grant and the put
  of \<open>keep\<close> are issued under \<^verbatim>\<open>context.TODO()\<close>, with no time bound.
\<close>

theorem keep_no_timeout_counterexample:
  "calls (emitted (connected empty_store)
            (snd (keep (store_client empty_store) ''a'' ''1'' (connected empty_store))))
     = [Call_Grant TODO 5, Call_Put TODO ''a'' ''1'' [WithLease 1], Call_KeepAlive TODO 1] \<and>
   call_timeout (Call_Grant TODO 5) = None \<and>
   call_timeout (Call_Put TODO ''a'' ''1'' [WithLease 1]) = None"
  by (simp add: keep_def prim_defs store_defs emitted_def defaultGrantTimeout_def)

section \<open>Deregistration: \<open>del\<close>\<close>

text \<open>
  C5. \<open>del\<close> takes the lock, removes the key from the ledger, releases the lock and only
  then issues the store delete; it returns what the store delete returns, and the ledger
  after \<open>del\<close> is the ledger before it without the key, whatever the store answered: when
  the store delete fails, \<open>del\<close> returns that error and the key is still absent from the
  ledger.
\<close>

theorem del_forgets_first:
  "emitted e (snd (del cl key e)) =
     [Lock, MapDelete key, Unlock, Call (Call_Delete TODO key)] \<and>
   liveKeyID (snd (del cl key e)) = AList.delete key (liveKeyID e) \<and>
   map_of (liveKeyID (snd (del cl key e))) key = None \<and>
   fst (del cl key e) = fst (Delete cl TODO key (client e)) \<and>
   (\<forall>err s1. Delete cl TODO key (client e) = (Some err, s1) \<longrightarrow>
      fst (del cl key e) = Some err \<and> map_of (liveKeyID (snd (del cl key e))) key = None)"
  by (simp add: del_def prim_defs emitted_def delete_conv' split: prod.splits)

text \<open>
  A registry that holds \<open>''a''\<close>, over a store whose next call fails: \<open>del\<close> returns the
  error of the store, the ledger is empty, and the record is still in the store.
\<close>

theorem del_forgets_first_witness:
  "store_Delete TODO ''a''
     (client (with_faults [Some (Error ''unavailable'')]
        (after_keep ''a'' ''1'' (connected empty_store))))
     = (Some (Error ''unavailable''), client (after_keep ''a'' ''1'' (connected empty_store))) \<and>
   fst (del (store_client empty_store) ''a''
          (with_faults [Some (Error ''unavailable'')]
             (after_keep ''a'' ''1'' (connected empty_store))))
     = Some (Error ''unavailable'') \<and>
   liveKeyID (snd (del (store_client empty_store) ''a''
          (with_faults [Some (Error ''unavailable'')]
             (after_keep ''a'' ''1'' (connected empty_store))))) = []"
  using del_forgets_first [of "with_faults [Some (Error ''unavailable'')]
      (after_keep ''a'' ''1'' (connected empty_store))" "store_client empty_store" "''a''"]
  by (simp add: after_keep_a) (simp add: store_defs)

section \<open>Shutdown: \<open>close\<close>\<close>

text \<open>
  C6, as the code has it. Whatever the store answers, \<open>close\<close> issues one store delete for
  every key of the ledger, dropping the result of each, and closes the connection after
  the last of them (and after releasing the lock). On the reference store, a ledger key
  whose delete does not fail is absent from the store after \<open>close\<close>; nothing is said of a
  key whose delete fails.
\<close>

theorem close_sweep:
  "emitted e (snd (close cl e)) =
     Lock # map (\<lambda>k. Call (Call_Delete TODO k)) (map fst (liveKeyID e)) @
       [Unlock, Call Call_Close] \<and>
   (\<forall>i. i < length (liveKeyID r) \<and> pending_fault (client r) i = None \<longrightarrow>
      map_of (records (client (snd (close (store_client st) r)))) (fst (liveKeyID r ! i))
        = None)"
proof -
  have "map_of (records (client (snd (close (store_client st) r)))) (fst (liveKeyID r ! i))
          = None"
    if "i < length (liveKeyID r)" "pending_fault (client r) i = None" for i
    using sweep_deleted [of i "map fst (liveKeyID r)" "client r"] that
    by (simp add: close_records)
  with close_emitted show ?thesis by blast
qed

text \<open>
  A registry that holds \<open>''a''\<close> and \<open>''b''\<close>, over a store whose next call fails: the
  second delete of the sweep, the one of \<open>''b''\<close>, does not fail, and \<open>''b''\<close> is gone.
\<close>

theorem close_sweep_witness:
  "(1::nat) < length (liveKeyID (with_faults [Some (Error ''unavailable'')]
       (after_keep ''b'' ''2'' (after_keep ''a'' ''1'' (connected empty_store))))) \<and>
   pending_fault (client (with_faults [Some (Error ''unavailable'')]
       (after_keep ''b'' ''2'' (after_keep ''a'' ''1'' (connected empty_store))))) 1 = None \<and>
   fst (liveKeyID (with_faults [Some (Error ''unavailable'')]
       (after_keep ''b'' ''2'' (after_keep ''a'' ''1'' (connected empty_store)))) ! 1) = ''b'' \<and>
   map_of (records (client (snd (close (store_client empty_store)
       (with_faults [Some (Error ''unavailable'')]
          (after_keep ''b'' ''2'' (after_keep ''a'' ''1'' (connected empty_store)))))))) ''b''
     = None"
proof -
  have "\<forall>i. i < length (liveKeyID (with_faults [Some (Error ''unavailable'')]
                (after_keep ''b'' ''2'' (after_keep ''a'' ''1'' (connected empty_store))))) \<and>
          pending_fault (client (with_faults [Some (Error ''unavailable'')]
                (after_keep ''b'' ''2'' (after_keep ''a'' ''1'' (connected empty_store))))) i
            = None \<longrightarrow>
          map_of (records (client (snd (close (store_client empty_store)
                (with_faults [Some (Error ''unavailable'')]
                   (after_keep ''b'' ''2'' (after_keep ''a'' ''1'' (connected empty_store))))))))
            (fst (liveKeyID (with_faults [Some (Error ''unavailable'')]
                (after_keep ''b'' ''2'' (after_keep ''a'' ''1'' (connected empty_store)))) ! i))
            = None"
    using close_sweep [where st = empty_store] by (rule conjunct2)
  from this [THEN spec, of 1] show ?thesis
    by (simp add: after_keep_a_b with_faults_def failing_def pending_fault_def)
qed

text \<open>
  C6 as it is written fails where a delete of the sweep fails: \<open>close\<close> on the same
  registry issues both deletes and closes the connection, and \<open>''a''\<close>, whose delete
  failed, is still in the store.
\<close>

theorem close_failed_delete_counterexample:
  "calls (emitted
       (with_faults [Some (Error ''unavailable'')]
          (after_keep ''b'' ''2'' (after_keep ''a'' ''1'' (connected empty_store))))
       (snd (close (store_client empty_store)
          (with_faults [Some (Error ''unavailable'')]
             (after_keep ''b'' ''2'' (after_keep ''a'' ''1'' (connected empty_store)))))))
     = [Call_Delete TODO ''a'', Call_Delete TODO ''b'', Call_Close] \<and>
   map_of (liveKeyID (with_faults [Some (Error ''unavailable'')]
       (after_keep ''b'' ''2'' (after_keep ''a'' ''1'' (connected empty_store))))) ''a''
     = Some 1 \<and>
   map_of (records (client (snd (close (store_client empty_store)
       (with_faults [Some (Error ''unavailable'')]
          (after_keep ''b'' ''2'' (after_keep ''a'' ''1'' (connected empty_store)))))))) ''a''
     = Some (''1'', 1)"
  by (simp add: after_keep_a_b)
     (simp add: close_def Let_def prim_defs store_defs emitted_def)

section \<open>Update of a key that the ledger does not hold\<close>

text \<open>
  C7. For a key that has no entry in the ledger, \<open>update\<close> reads the zero lease and issues
  the put of the key and value under the zero lease as its first client call. It has no
  error of its own for the absent key: when that put succeeds \<open>update\<close> returns no error
  and is done, and when it fails \<open>update\<close> goes on with \<open>keep\<close>.
\<close>

theorem update_absent_key:
  "map_of (liveKeyID e) key = None \<Longrightarrow>
     take 4 (emitted e (snd (update cl key val e))) =
       [Lock, MapLoad key, Unlock, Call (Call_Put TODO key val [WithLease 0])] \<and>
     (\<forall>s1. Put cl TODO key val [WithLease 0] (client e) = (None, s1) \<longrightarrow>
        update cl key val e =
          (None, e\<lparr>client := s1, trace := trace e @
             [Lock, MapLoad key, Unlock, Call (Call_Put TODO key val [WithLease 0])]\<rparr>)) \<and>
     (\<forall>err s1. Put cl TODO key val [WithLease 0] (client e) = (Some err, s1) \<longrightarrow>
        update cl key val e =
          keep cl key val (e\<lparr>client := s1, trace := trace e @
             [Lock, MapLoad key, Unlock, Call (Call_Put TODO key val [WithLease 0])]\<rparr>))"
  by (auto simp add: update_def keep_def prim_defs emitted_def
        split: prod.splits sum.splits option.splits)

text \<open>On a fresh registry over the empty reference store, the put under the zero lease
  succeeds: the store holds the record with no lease and the ledger stays empty.\<close>

theorem update_absent_key_witness:
  "map_of (liveKeyID (connected empty_store)) ''a'' = None \<and>
   update (store_client empty_store) ''a'' ''2'' (connected empty_store) =
     (None,
      \<lparr>client = \<lparr>records = [(''a'', ''2'', 0)], leases = [], nextLease = 1, faults = []\<rparr>,
       liveKeyID = [],
       trace = [Lock, MapLoad ''a'', Unlock, Call (Call_Put TODO ''a'' ''2'' [WithLease 0])]\<rparr>)"
proof -
  have absent: "map_of (liveKeyID (connected empty_store)) ''a'' = None"
    by (simp add: connected_def)
  from update_absent_key [OF absent, of "store_client empty_store" "''2''"] absent
  show ?thesis
    by (simp add: store_defs)
qed

section \<open>Watch: \<open>watch\<close>\<close>

text \<open>
  C8. With a nil callback \<open>watch\<close> returns the error \<^verbatim>\<open>watchFunc is nil\<close> (the spec's
  InvalidArgument) and leaves the registry as it was: the store is not called and nothing
  enters the history. With a callback \<open>watch\<close> returns no error, after one watch call of
  the client, scoped to the prefix or to the key.
\<close>

theorem watch_nil_callback:
  "watch cl key None prefix e = (Some (errors_New ''watchFunc is nil''), e) \<and>
   emitted e (snd (watch cl key None prefix e)) = [] \<and>
   fst (watch cl key (Some f) prefix e) = None \<and>
   calls (emitted e (snd (watch cl key (Some f) prefix e))) =
     [Call_Watch Background key (if prefix then [WithPrefix] else [])]"
  by (simp add: watch_def prim_defs emitted_def split: prod.splits)

section \<open>Reads: \<open>getByPrefix\<close> and \<open>get\<close>\<close>

text \<open>
  C9. When the store answers the prefix read with no record, \<open>getByPrefix\<close> returns the
  empty map and no error. On the reference store: when no record of the store has the
  prefix and the read does not fail, \<open>getByPrefix\<close> returns the empty map and no error.
\<close>

theorem getByPrefix_no_match:
  "(\<forall>resp s1.
      Get cl (WithTimeout Background defaultOperationTimeout) key [WithPrefix] (client e)
        = (Inr resp, s1) \<and> Kvs resp = [] \<longrightarrow>
      fst (getByPrefix cl key e) = (Some Map.empty, None)) \<and>
   (pending_fault (client r) 0 = None \<and>
    filter (\<lambda>(k, v, i). has_prefix key k) (records (client r)) = [] \<longrightarrow>
      fst (getByPrefix (store_client st) key r) = (Some Map.empty, None))"
  by (auto simp add: getByPrefix_def prim_defs store_client_def store_Get_def next_fault_def
        pending_fault_def split: list.splits option.splits)

text \<open>A registry that holds \<open>''a''\<close> reads the prefix \<open>''svc/''\<close>, which no record has.\<close>

theorem getByPrefix_no_match_witness:
  "pending_fault (client (after_keep ''a'' ''1'' (connected empty_store))) 0 = None \<and>
   filter (\<lambda>(k, v, i). has_prefix ''svc/'' k)
     (records (client (after_keep ''a'' ''1'' (connected empty_store)))) = [] \<and>
   fst (store_Get (WithTimeout Background defaultOperationTimeout) ''svc/'' [WithPrefix]
          (client (after_keep ''a'' ''1'' (connected empty_store)))) = Inr \<lparr>Kvs = []\<rparr> \<and>
   fst (getByPrefix (store_client empty_store) ''svc/''
          (after_keep ''a'' ''1'' (connected empty_store))) = (Some Map.empty, None)"
  using getByPrefix_no_match [where r = "after_keep ''a'' ''1'' (connected empty_store)"
      and key = "''svc/''" and st = empty_store and cl = "store_client empty_store"
      and e = "after_keep ''a'' ''1'' (connected empty_store)"]
  by (simp add: after_keep_a pending_fault_def has_prefix_def store_Get_def next_fault_def)

text \<open>
  C10. When the store answers the read of a key with no record, \<open>get\<close> returns the empty
  string and no error, which is also what it returns when the answer is one record with
  the empty value; when the answer has records, \<open>get\<close> returns the value of the last of
  them. On the reference store: for a key with no record, when the read does not fail,
  \<open>get\<close> returns the empty string and no error.
\<close>

theorem get_absent_and_last:
  "(\<forall>resp s1.
      Get cl (WithTimeout Background defaultOperationTimeout) key [] (client e) = (Inr resp, s1)
        \<and> Kvs resp = [] \<longrightarrow> fst (get cl key e) = ('''', None)) \<and>
   (\<forall>resp s1 k.
      Get cl (WithTimeout Background defaultOperationTimeout) key [] (client e) = (Inr resp, s1)
        \<and> Kvs resp = [\<lparr>Key = k, Value = ''''\<rparr>] \<longrightarrow> fst (get cl key e) = ('''', None)) \<and>
   (\<forall>resp s1.
      Get cl (WithTimeout Background defaultOperationTimeout) key [] (client e) = (Inr resp, s1)
        \<and> Kvs resp \<noteq> [] \<longrightarrow> fst (get cl key e) = (Value (last (Kvs resp)), None)) \<and>
   (pending_fault (client r) 0 = None \<and> map_of (records (client r)) key = None \<longrightarrow>
      fst (get (store_client st) key r) = ('''', None))"
  by (auto simp add: get_def prim_defs fold_last_Value store_client_def store_Get_def
        next_fault_def pending_fault_def filter_key_absent split: list.splits option.splits)

text \<open>
  Three reads: of a key that the empty reference store does not hold; of a key that the
  store holds with the empty value; and, over a client whose answer has two records, a
  read that returns the value of the second.
\<close>

theorem get_absent_and_last_witness:
  "map_of (records (client (connected empty_store))) ''a'' = None \<and>
   fst (get (store_client empty_store) ''a'' (connected empty_store)) = ('''', None) \<and>
   fst (store_Get (WithTimeout Background defaultOperationTimeout) ''a'' []
          (client (after_keep ''a'' '''' (connected empty_store))))
     = Inr \<lparr>Kvs = [\<lparr>Key = ''a'', Value = ''''\<rparr>]\<rparr> \<and>
   fst (get (store_client empty_store) ''a'' (after_keep ''a'' '''' (connected empty_store)))
     = ('''', None) \<and>
   fst (get ((store_client empty_store)
               \<lparr>Get := \<lambda>ctx key opts s.
                  (Inr \<lparr>Kvs = [\<lparr>Key = ''a'', Value = ''1''\<rparr>, \<lparr>Key = ''a'', Value = ''2''\<rparr>]\<rparr>, s)\<rparr>)
          ''a'' (connected empty_store))
     = (''2'', None)"
  using
    get_absent_and_last [where cl = "store_client empty_store" and key = "''a''"
      and e = "connected empty_store" and r = "connected empty_store" and st = empty_store]
    get_absent_and_last [where cl = "store_client empty_store" and key = "''a''"
      and e = "after_keep ''a'' '''' (connected empty_store)"
      and r = "connected empty_store" and st = empty_store]
    get_absent_and_last [where key = "''a''" and e = "connected empty_store"
      and r = "connected empty_store" and st = empty_store
      and cl = "(store_client empty_store)
               \<lparr>Get := \<lambda>ctx key opts s.
                  (Inr \<lparr>Kvs = [\<lparr>Key = ''a'', Value = ''1''\<rparr>, \<lparr>Key = ''a'', Value = ''2''\<rparr>]\<rparr>, s)\<rparr>"]
  by (simp add: after_keep_def keep_def prim_defs store_defs pending_fault_def
        defaultGrantTimeout_def)

end
